theory Spec2Isabelle
  imports Complex_Main "HOL-Library.AList" "HOL-Library.Word"
begin

unbundle bit_operations_syntax

section \<open>Values exchanged with the control server\<close>

text \<open>
  The agent receives JSON from the server and handles it as Python values. Floats are
  left out of the value type; the one float the agent computes itself (a duration) is an
  idealised \<open>real\<close>.
\<close>

datatype pyval =
    PyNone
  | PyBool bool
  | PyInt int
  | PyStr string
  | PyList "pyval list"
  | PyDict "(string \<times> pyval) list"

text \<open>\<^verbatim>\<open>d.get(key, default)\<close> on a dict.\<close>

definition dict_get :: "(string \<times> pyval) list \<Rightarrow> string \<Rightarrow> pyval \<Rightarrow> pyval" where
  "dict_get d k dflt = (case map_of d k of None \<Rightarrow> dflt | Some v \<Rightarrow> v)"

text \<open>Python truthiness, as \<^verbatim>\<open>if command:\<close> and \<^verbatim>\<open>if data.get('has_command'):\<close> test it.\<close>

fun truthy :: "pyval \<Rightarrow> bool" where
  "truthy PyNone = False"
| "truthy (PyBool b) = b"
| "truthy (PyInt n) = (n \<noteq> 0)"
| "truthy (PyStr s) = (s \<noteq> [])"
| "truthy (PyList xs) = (xs \<noteq> [])"
| "truthy (PyDict d) = (d \<noteq> [])"

text \<open>The exceptions the modelled code can meet; all of them derive from \<^verbatim>\<open>Exception\<close>.\<close>

datatype py_exn =
    HTTPError int
  | URLError
  | ValueError
  | AttributeError
  | OSError
  | RuntimeError
  | BadNamespaceError
  | UnicodeEncodeError

section \<open>Remote command execution\<close>

text \<open>
  What \<^verbatim>\<open>subprocess.run(command_string, shell=True, capture_output=True, text=True,
  timeout=timeout)\<close> can do: return a completed process, raise
  \<^verbatim>\<open>subprocess.TimeoutExpired\<close>, or raise another exception \<open>e\<close>, carried here as
  \<^verbatim>\<open>str(e)\<close>.
\<close>

datatype run_outcome =
    Completed int string string
  | TimeoutExpired
  | RunRaised string

text \<open>
  The surroundings of one \<^verbatim>\<open>execute_command\<close> call: whether \<^verbatim>\<open>print\<close> of a line
  holding a value returns (it raises \<^verbatim>\<open>UnicodeEncodeError\<close> on text that standard
  output cannot encode); the subprocess, given the command string and the timeout it is
  called with; the two readings of \<^verbatim>\<open>time.time()\<close>; \<^verbatim>\<open>datetime.now().isoformat()\<close>;
  and the builtins \<^verbatim>\<open>str\<close> (inside the f-string) and \<^verbatim>\<open>round(_, 3)\<close>.
\<close>

record exec_env =
  print_ok :: "pyval \<Rightarrow> bool"
  subprocess_run :: "pyval \<Rightarrow> pyval \<Rightarrow> run_outcome"
  time_start :: real
  time_end :: real
  now_isoformat :: string
  py_str :: "pyval \<Rightarrow> string"
  round3 :: "real \<Rightarrow> real"

record command_result =
  command_uuid :: pyval
  command_id :: pyval
  exit_code :: int
  stdout :: string
  stderr :: string
  executed_at :: string
  duration_seconds :: real
  error :: "string option"

text \<open>
  \<^verbatim>\<open>execute_command(command_data)\<close>. The four \<^verbatim>\<open>.get\<close> calls and the two
  \<^verbatim>\<open>print\<close> calls (of the command id, then of the command string) stand before the
  \<^verbatim>\<open>try\<close>: what they raise goes to the caller.
\<close>

definition execute_command :: "exec_env \<Rightarrow> pyval \<Rightarrow> py_exn + command_result" where
  "execute_command env command_data =
     (case command_data of
        PyDict d \<Rightarrow>
          (let command_string = dict_get d ''command_string'' (PyStr '''');
               timeout = dict_get d ''timeout'' (PyInt 60);
               cuuid = dict_get d ''command_uuid'' (PyStr '''');
               cid = dict_get d ''command_id'' (PyStr '''');
               duration = time_end env - time_start env
           in if \<not> print_ok env cid then Inl UnicodeEncodeError
              else if \<not> print_ok env command_string then Inl UnicodeEncodeError
              else case subprocess_run env command_string timeout of
                Completed rc out err \<Rightarrow>
                  Inr \<lparr>command_uuid = cuuid, command_id = cid, exit_code = rc,
                       stdout = out, stderr = err, executed_at = now_isoformat env,
                       duration_seconds = round3 env duration, error = None\<rparr>
              | TimeoutExpired \<Rightarrow>
                  Inr \<lparr>command_uuid = cuuid, command_id = cid, exit_code = - 1,
                       stdout = '''',
                       stderr = ''Command timed out after '' @ py_str env timeout @ '' seconds'',
                       executed_at = now_isoformat env,
                       duration_seconds = round3 env duration, error = Some ''timeout''\<rparr>
              | RunRaised msg \<Rightarrow>
                  Inr \<lparr>command_uuid = cuuid, command_id = cid, exit_code = - 1,
                       stdout = '''', stderr = msg, executed_at = now_isoformat env,
                       duration_seconds = round3 env duration, error = Some msg\<rparr>)
      | _ \<Rightarrow> Inl AttributeError)"

section \<open>Command polling\<close>

record config =
  center_server_url :: string
  secret_key :: string
  client_id :: string
  command_poll_interval :: real

text \<open>
  What the body of an HTTP response turns into under
  \<^verbatim>\<open>json.loads(response.read().decode('utf-8'))\<close>: a read error, a decoding or parsing
  error, or a value.
\<close>

datatype body =
    ReadFailed
  | Malformed
  | Json pyval

text \<open>
  What \<^verbatim>\<open>urllib.request.urlopen(req, timeout=10)\<close> does: a response with a status, an
  \<^verbatim>\<open>HTTPError\<close> with its code (urllib raises it for 4xx and 5xx), or a network error.
\<close>

datatype http_outcome =
    Response int body
  | HttpFailed int
  | NetworkFailed

text \<open>The \<^verbatim>\<open>try\<close> block of \<^verbatim>\<open>poll_for_commands\<close>.\<close>

definition poll_request :: "http_outcome \<Rightarrow> py_exn + pyval" where
  "poll_request h =
     (case h of
        NetworkFailed \<Rightarrow> Inl URLError
      | HttpFailed code \<Rightarrow> Inl (HTTPError code)
      | Response status b \<Rightarrow>
          (if status = 200 then
             (case b of
                ReadFailed \<Rightarrow> Inl OSError
              | Malformed \<Rightarrow> Inl ValueError
              | Json (PyDict d) \<Rightarrow>
                  (if truthy (dict_get d ''has_command'' PyNone)
                   then Inr (dict_get d ''command'' PyNone)
                   else Inr PyNone)
              | Json _ \<Rightarrow> Inl AttributeError)
           else Inr PyNone))"

text \<open>
  \<^verbatim>\<open>poll_for_commands()\<close>: the guard on the configuration, the request, and the two
  handlers (\<^verbatim>\<open>except urllib.error.HTTPError\<close>, \<^verbatim>\<open>except Exception\<close>), both of which
  return \<^verbatim>\<open>None\<close>. \<open>Inl\<close> would be an exception leaving the function.
\<close>

definition poll_for_commands :: "config \<Rightarrow> http_outcome \<Rightarrow> py_exn + pyval" where
  "poll_for_commands cfg h =
     (if center_server_url cfg = [] \<or> secret_key cfg = [] then Inr PyNone
      else case poll_request h of
             Inl (HTTPError code) \<Rightarrow> Inr PyNone
           | Inl e \<Rightarrow> Inr PyNone
           | Inr v \<Rightarrow> Inr v)"

text \<open>What one turn of the polling loop does, in order.\<close>

datatype worker_action =
    Executed command_result
  | Submitted command_result
  | Warned py_exn
  | Slept real

text \<open>
  \<^verbatim>\<open>submit_command_result(result)\<close> returns at once without a server URL; otherwise it
  posts the result inside a \<^verbatim>\<open>try\<close> whose handler catches every exception, so it
  never raises.
\<close>

definition submit_command_result :: "config \<Rightarrow> command_result \<Rightarrow> worker_action list" where
  "submit_command_result cfg r = (if center_server_url cfg = [] then [] else [Submitted r])"

text \<open>One turn of the loop needs the outcome of its poll and the surroundings of its command.\<close>

record cycle =
  poll_outcome :: http_outcome
  exec_surroundings :: exec_env

text \<open>
  The \<^verbatim>\<open>try\<close> block of the loop body of \<^verbatim>\<open>command_polling_worker\<close>: the actions done,
  and the exception that ended it, if any.
\<close>

definition polling_attempt :: "config \<Rightarrow> cycle \<Rightarrow> py_exn option \<times> worker_action list" where
  "polling_attempt cfg c =
     (case poll_for_commands cfg (poll_outcome c) of
        Inl e \<Rightarrow> (Some e, [])
      | Inr command \<Rightarrow>
          (if truthy command then
             (case execute_command (exec_surroundings c) command of
                Inl e \<Rightarrow> (Some e, [])
              | Inr r \<Rightarrow> (None, Executed r # submit_command_result cfg r))
           else (None, [])))"

text \<open>
  The loop body: the attempt and its \<^verbatim>\<open>except Exception\<close> handler, then
  \<^verbatim>\<open>time.sleep(self.command_poll_interval)\<close>, which stands outside the \<^verbatim>\<open>try\<close> and
  raises \<^verbatim>\<open>ValueError\<close> on a negative interval. The result is the actions done and the
  exception that leaves the body, if any.
\<close>

definition polling_cycle :: "config \<Rightarrow> cycle \<Rightarrow> py_exn option \<times> worker_action list" where
  "polling_cycle cfg c =
     (let acts = (case polling_attempt cfg c of
                    (None, acts) \<Rightarrow> acts
                  | (Some e, acts) \<Rightarrow> acts @ [Warned e])
      in if command_poll_interval cfg < 0 then (Some ValueError, acts)
         else (None, acts @ [Slept (command_poll_interval cfg)]))"

text \<open>
  \<^verbatim>\<open>command_polling_worker()\<close>: the loop runs while \<^verbatim>\<open>command_polling_running\<close> holds,
  a flag another thread clears; the list holds the turns taken before that. An exception
  that leaves the loop body ends the worker.
\<close>

fun command_polling_worker :: "config \<Rightarrow> cycle list \<Rightarrow> py_exn option \<times> worker_action list" where
  "command_polling_worker cfg [] = (None, [])"
| "command_polling_worker cfg (c # cs) =
     (case polling_cycle cfg c of
        (Some e, acts) \<Rightarrow> (Some e, acts)
      | (None, acts) \<Rightarrow>
          (case command_polling_worker cfg cs of (e, acts') \<Rightarrow> (e, acts @ acts')))"


section \<open>Base64\<close>

text \<open>
  The shell tunnel carries bytes as base64 text: \<^verbatim>\<open>base64.b64encode\<close> on the way out,
  \<^verbatim>\<open>base64.b64decode\<close> on the way in. Both belong to Python's library, not to the
  repository; they are modelled after \<^verbatim>\<open>binascii\<close>: the two tables, the encoder over
  groups of three bytes, and the decoder's loop in its default (non-strict) mode, which
  skips characters outside the alphabet and stops at a complete padding.
\<close>

type_synonym byte = "8 word"

definition b64_alphabet :: string where
  "b64_alphabet = ''ABCDEFGHIJKLMNOPQRSTUVWXYZabcdefghijklmnopqrstuvwxyz0123456789+/''"

definition table_b2a_base64 :: "byte \<Rightarrow> char" where
  "table_b2a_base64 v = b64_alphabet ! unat (v AND 63)"

fun index_of :: "'a \<Rightarrow> 'a list \<Rightarrow> nat option" where
  "index_of x [] = None"
| "index_of x (y # ys) = (if x = y then Some 0 else map_option Suc (index_of x ys))"

definition table_a2b_base64 :: "char \<Rightarrow> byte option" where
  "table_a2b_base64 c = map_option of_nat (index_of c b64_alphabet)"

fun b64encode :: "byte list \<Rightarrow> string" where
  "b64encode [] = []"
| "b64encode [a] =
     [table_b2a_base64 (drop_bit 2 a), table_b2a_base64 (push_bit 4 (a AND 3)),
      CHR ''='', CHR ''='']"
| "b64encode [a, b] =
     [table_b2a_base64 (drop_bit 2 a), table_b2a_base64 (push_bit 4 (a AND 3) OR drop_bit 4 b),
      table_b2a_base64 (push_bit 2 (b AND 15)), CHR ''='']"
| "b64encode (a # b # c # rest) =
     [table_b2a_base64 (drop_bit 2 a), table_b2a_base64 (push_bit 4 (a AND 3) OR drop_bit 4 b),
      table_b2a_base64 (push_bit 2 (b AND 15) OR drop_bit 6 c), table_b2a_base64 (c AND 63)]
     @ b64encode rest"

text \<open>
  The decoder's loop, with its state: the position in the current group of four, the bits
  left over from the previous character, and the padding characters seen. \<open>None\<close> is
  \<^verbatim>\<open>binascii.Error\<close> (a group left incomplete at the end).
\<close>

fun a2b_base64 :: "nat \<Rightarrow> byte \<Rightarrow> nat \<Rightarrow> string \<Rightarrow> byte list option" where
  "a2b_base64 quad_pos leftchar pads [] = (if quad_pos = 0 then Some [] else None)"
| "a2b_base64 quad_pos leftchar pads (this_ch # rest) =
     (if this_ch = CHR ''='' then
        (if 2 \<le> quad_pos \<and> 4 \<le> quad_pos + (pads + 1) then Some []
         else a2b_base64 quad_pos leftchar (if 2 \<le> quad_pos then pads + 1 else pads) rest)
      else case table_a2b_base64 this_ch of
        None \<Rightarrow> a2b_base64 quad_pos leftchar pads rest
      | Some v \<Rightarrow>
          (if quad_pos = 0 then a2b_base64 1 v 0 rest
           else if quad_pos = 1 then
             map_option ((#) (push_bit 2 leftchar OR drop_bit 4 v)) (a2b_base64 2 (v AND 15) 0 rest)
           else if quad_pos = 2 then
             map_option ((#) (push_bit 4 leftchar OR drop_bit 2 v)) (a2b_base64 3 (v AND 3) 0 rest)
           else map_option ((#) (push_bit 6 leftchar OR v)) (a2b_base64 0 0 0 rest)))"

text \<open>
  \<^verbatim>\<open>base64.b64decode(s)\<close> on a \<^verbatim>\<open>str\<close>: a character outside ASCII raises
  \<^verbatim>\<open>ValueError\<close>, anything else goes to the decoder.
\<close>

definition b64decode :: "string \<Rightarrow> byte list option" where
  "b64decode s =
     (if list_all (\<lambda>c. (of_char c :: nat) < 128) s then a2b_base64 0 0 0 s else None)"

section \<open>Shell sessions\<close>

text \<open>The value the registry keeps for a session id.\<close>

record shell_session =
  fd :: int
  pid :: int
  rows :: int
  cols :: int

datatype signal = SIGTERM | SIGKILL

text \<open>
  A process id as the agent's operating system sees it: a running child of the agent; a
  child that has exited and has not been waited for yet (a zombie); the id of no process
  (never used, or free again after the child was reaped); or the id of a live process
  that is not the agent's child (an id the system has given out again).
\<close>

datatype pstate = Running | Zombie | NoProcess | OtherProcess

text \<open>The events the agent sends over the control connection.\<close>

datatype event =
    ShellReady string string
  | ShellClientExit string int
  | ShellOutput string string

text \<open>
  What the agent does to the world, in order. \<open>Emit\<close> is a \<^verbatim>\<open>sio.emit\<close> that returned;
  the others are calls made: \<^verbatim>\<open>pty.fork()\<close>, the two \<^verbatim>\<open>fcntl\<close> calls that set
  \<^verbatim>\<open>O_NONBLOCK\<close>, \<^verbatim>\<open>ioctl(fd, TIOCSWINSZ, _)\<close>, the start of the reader thread,
  \<^verbatim>\<open>os.close\<close>, \<^verbatim>\<open>os.kill\<close>, \<^verbatim>\<open>time.sleep(0.1)\<close>, \<^verbatim>\<open>os.waitpid(pid, WNOHANG)\<close> and
  \<^verbatim>\<open>os.write(fd, data)\<close> with the data it is given.
\<close>

datatype action =
    Fork
  | SetNonblocking int
  | SetWinsize int int int
  | Emit event
  | StartReader string
  | CloseFd int
  | Kill int signal
  | Sleep
  | WaitpidNohang int
  | WriteFd int "byte list"

text \<open>
  The agent: the registry \<^verbatim>\<open>self.shell_sessions\<close> (a dict, kept in insertion order), the
  flag \<^verbatim>\<open>self.shell_connected\<close>, the process ids of the system, the bytes each
  descriptor has taken so far, and the actions taken so far.
\<close>

record agent =
  shell_sessions :: "(string \<times> shell_session) list"
  shell_connected :: bool
  procs :: "int \<Rightarrow> pstate"
  pty_input :: "int \<Rightarrow> byte list"
  trace :: "action list"

text \<open>
  What the agent does not decide: whether \<^verbatim>\<open>pty.fork()\<close> gives a child and a descriptor
  or raises; whether \<^verbatim>\<open>fcntl\<close> raises; whether an \<^verbatim>\<open>emit\<close> raises; whether the reader
  thread starts; how many bytes of the data \<^verbatim>\<open>os.write\<close> takes on a descriptor, which is
  in non-blocking mode (\<open>None\<close>: it raises, as with \<^verbatim>\<open>BlockingIOError\<close> on a full
  buffer); whether the agent may signal a process that is not its child; whether a
  running child has exited by the end of the grace period, and by the time the agent
  waits for it.
\<close>

record os_env =
  fork_result :: "(int \<times> int) option"
  fcntl_ok :: bool
  emit_ok :: "event \<Rightarrow> bool"
  thread_start_ok :: bool
  write_result :: "int \<Rightarrow> byte list \<Rightarrow> nat option"
  may_signal :: "int \<Rightarrow> bool"
  exits_in_grace :: "int \<Rightarrow> bool"
  exits_before_reap :: "int \<Rightarrow> bool"

definition log :: "action \<Rightarrow> agent \<Rightarrow> agent" where
  "log a w = w\<lparr>trace := trace w @ [a]\<rparr>"

text \<open>
  \<^verbatim>\<open>_set_pty_size(fd, rows, cols)\<close>: \<^verbatim>\<open>struct.pack('HHHH', rows, cols, 0, 0)\<close> raises
  outside 0..65535 and the \<^verbatim>\<open>ioctl\<close> can raise; the handler swallows both.
\<close>

definition set_pty_size :: "agent \<Rightarrow> int \<Rightarrow> int \<Rightarrow> int \<Rightarrow> agent" where
  "set_pty_size w f r c =
     (if 0 \<le> r \<and> r \<le> 65535 \<and> 0 \<le> c \<and> c \<le> 65535 then log (SetWinsize f r c) w else w)"

text \<open>
  The \<^verbatim>\<open>try\<close> block of \<^verbatim>\<open>_open_shell_session\<close>, as the agent (the parent of the fork)
  runs it: the state reached, and the exception that ended the block, if any. The branch
  \<^verbatim>\<open>pid == 0\<close> runs in the child, which replaces itself by the login shell.
\<close>

definition open_attempt ::
  "config \<Rightarrow> os_env \<Rightarrow> agent \<Rightarrow> string \<Rightarrow> int \<Rightarrow> int \<Rightarrow> py_exn option \<times> agent" where
  "open_attempt cfg env w session_id r c =
     (case fork_result env of
        None \<Rightarrow> (Some OSError, log Fork w)
      | Some (child, master) \<Rightarrow>
          (let w1 = (log Fork w)\<lparr>procs := (procs w)(child := Running)\<rparr>;
               w2 = log (SetNonblocking master) w1
           in if \<not> fcntl_ok env then (Some OSError, w2)
              else
                (let w3 = set_pty_size w2 master r c;
                     w4 = w3\<lparr>shell_sessions :=
                             AList.update session_id
                               \<lparr>fd = master, pid = child, rows = r, cols = c\<rparr>
                               (shell_sessions w3)\<rparr>
                 in if \<not> emit_ok env (ShellReady session_id (client_id cfg))
                    then (Some BadNamespaceError, w4)
                    else
                      (let w5 = log (Emit (ShellReady session_id (client_id cfg))) w4
                       in if \<not> thread_start_ok env then (Some RuntimeError, w5)
                          else (None, log (StartReader session_id) w5)))))"

text \<open>
  \<^verbatim>\<open>_open_shell_session(session_id, rows, cols)\<close>: the block and its handler, which
  emits \<^verbatim>\<open>shell_client_exit\<close> with exit code -1. An exception of that emit leaves the
  function.
\<close>

definition open_shell_session ::
  "config \<Rightarrow> os_env \<Rightarrow> agent \<Rightarrow> string \<Rightarrow> int \<Rightarrow> int \<Rightarrow> py_exn option \<times> agent" where
  "open_shell_session cfg env w session_id r c =
     (case open_attempt cfg env w session_id r c of
        (None, w') \<Rightarrow> (None, w')
      | (Some e, w') \<Rightarrow>
          (if emit_ok env (ShellClientExit session_id (- 1))
           then (None, log (Emit (ShellClientExit session_id (- 1))) w')
           else (Some BadNamespaceError, w')))"

text \<open>
  \<^verbatim>\<open>os.write(fd, data)\<close> on the non-blocking descriptor: the descriptor takes the first
  bytes of the data, as many as the system accepts, and the call returns their number; or
  the call raises and the descriptor takes nothing.
\<close>

definition os_write :: "os_env \<Rightarrow> agent \<Rightarrow> int \<Rightarrow> byte list \<Rightarrow> (py_exn + nat) \<times> agent" where
  "os_write env w f data =
     (case write_result env f data of
        None \<Rightarrow> (Inl OSError, log (WriteFd f data) w)
      | Some n \<Rightarrow>
          (Inr (min n (length data)),
           (log (WriteFd f data) w)\<lparr>pty_input := (pty_input w)(f := pty_input w f @ take n data)\<rparr>))"

text \<open>
  \<^verbatim>\<open>_handle_shell_input(session_id, input_data)\<close>. A payload that does not decode and a
  write that raises are printed by the handler and change nothing else; the number that
  \<^verbatim>\<open>os.write\<close> returns is not looked at.
\<close>

definition handle_shell_input :: "os_env \<Rightarrow> agent \<Rightarrow> string \<Rightarrow> string \<Rightarrow> agent" where
  "handle_shell_input env w session_id input_data =
     (case map_of (shell_sessions w) session_id of
        None \<Rightarrow> w
      | Some session \<Rightarrow>
          (case b64decode input_data of
             None \<Rightarrow> w
           | Some data \<Rightarrow> snd (os_write env w (fd session) data)))"

text \<open>The \<^verbatim>\<open>shell_input\<close> events of a session, handled in the order they arrive.\<close>

definition shell_inputs :: "os_env \<Rightarrow> agent \<Rightarrow> string \<Rightarrow> string list \<Rightarrow> agent" where
  "shell_inputs env w session_id inputs =
     fold (\<lambda>i w'. handle_shell_input env w' session_id i) inputs w"

text \<open>\<^verbatim>\<open>_resize_shell(session_id, rows, cols)\<close>.\<close>

definition resize_shell :: "agent \<Rightarrow> string \<Rightarrow> int \<Rightarrow> int \<Rightarrow> agent" where
  "resize_shell w session_id r c =
     (case map_of (shell_sessions w) session_id of
        None \<Rightarrow> w
      | Some session \<Rightarrow>
          set_pty_size
            (w\<lparr>shell_sessions :=
                 AList.update session_id (session\<lparr>rows := r, cols := c\<rparr>) (shell_sessions w)\<rparr>)
            (fd session) r c)"

text \<open>
  \<^verbatim>\<open>os.kill(pid, sig)\<close> raises \<^verbatim>\<open>ProcessLookupError\<close> when no process has the id, and
  \<^verbatim>\<open>PermissionError\<close> when the agent may not signal the process that has it; both are
  \<^verbatim>\<open>OSError\<close>. A zombie still takes the signal, without effect. What a signal does to
  a process that is not the agent's child is not followed.
\<close>

definition os_kill :: "os_env \<Rightarrow> agent \<Rightarrow> int \<Rightarrow> signal \<Rightarrow> py_exn option \<times> agent" where
  "os_kill env w p sg =
     (if procs w p = NoProcess \<or> procs w p = OtherProcess \<and> \<not> may_signal env p
      then (Some OSError, log (Kill p sg) w)
      else (None, log (Kill p sg) w))"

text \<open>
  \<^verbatim>\<open>os.waitpid(pid, os.WNOHANG)\<close>: reaps a zombie, whose id is free from then on;
  returns at once on a running child; raises \<^verbatim>\<open>ChildProcessError\<close> when the agent has no
  child with the id.
\<close>

definition os_waitpid_nohang :: "agent \<Rightarrow> int \<Rightarrow> py_exn option \<times> agent" where
  "os_waitpid_nohang w p =
     (case procs w p of
        NoProcess \<Rightarrow> (Some OSError, log (WaitpidNohang p) w)
      | OtherProcess \<Rightarrow> (Some OSError, log (WaitpidNohang p) w)
      | Zombie \<Rightarrow> (None, (log (WaitpidNohang p) w)\<lparr>procs := (procs w)(p := NoProcess)\<rparr>)
      | Running \<Rightarrow> (None, log (WaitpidNohang p) w))"

text \<open>Time passes: a running child that exits in the meantime becomes a zombie.\<close>

definition child_may_exit :: "bool \<Rightarrow> int \<Rightarrow> agent \<Rightarrow> agent" where
  "child_may_exit exits p w =
     (if exits \<and> procs w p = Running then w\<lparr>procs := (procs w)(p := Zombie)\<rparr> else w)"

text \<open>
  \<^verbatim>\<open>_close_shell_session(session_id)\<close>: \<^verbatim>\<open>pop(session_id, None)\<close>, then \<^verbatim>\<open>os.close\<close>
  in a \<^verbatim>\<open>try\<close> of its own, then a second \<^verbatim>\<open>try\<close> holding the SIGTERM, the sleep, and
  the SIGKILL and the \<^verbatim>\<open>waitpid\<close>, each of these two in an inner \<^verbatim>\<open>try\<close>. Every handler
  is \<^verbatim>\<open>pass\<close>: an exception of the SIGTERM skips the rest, the others skip nothing.
\<close>

definition close_shell_session :: "os_env \<Rightarrow> agent \<Rightarrow> string \<Rightarrow> agent" where
  "close_shell_session env w session_id =
     (case map_of (shell_sessions w) session_id of
        None \<Rightarrow> w
      | Some session \<Rightarrow>
          (let p = pid session;
               w1 = log (CloseFd (fd session))
                      (w\<lparr>shell_sessions := AList.delete session_id (shell_sessions w)\<rparr>)
           in case os_kill env w1 p SIGTERM of
                (Some e, w2) \<Rightarrow> w2
              | (None, w2) \<Rightarrow>
                  (let w3 = child_may_exit (exits_in_grace env p) p (log Sleep w2);
                       w4 = snd (os_kill env w3 p SIGKILL);
                       w5 = child_may_exit (exits_before_reap env p) p w4
                   in snd (os_waitpid_nohang w5 p))))"

text \<open>
  The \<^verbatim>\<open>disconnect\<close> handler: clear the flag, then close every session of
  \<^verbatim>\<open>list(self.shell_sessions.keys())\<close>.
\<close>

definition disconnect :: "os_env \<Rightarrow> agent \<Rightarrow> agent" where
  "disconnect env w =
     fold (\<lambda>session_id w'. close_shell_session env w' session_id)
       (map fst (shell_sessions w)) (w\<lparr>shell_connected := False\<rparr>)"

section \<open>Example inputs\<close>

text \<open>An agent with one open session, whose shell is running.\<close>

definition one_session :: agent where
  "one_session =
     \<lparr>shell_sessions = [(''s1'', \<lparr>fd = 5, pid = 100, rows = 24, cols = 80\<rparr>)],
      shell_connected = True,
      procs = (\<lambda>p. if p = 100 then Running else NoProcess),
      pty_input = (\<lambda>f. []),
      trace = []\<rparr>"

text \<open>The same, when the shell has exited and nobody has waited for it yet.\<close>

definition exited_session :: agent where
  "exited_session = one_session\<lparr>procs := (\<lambda>p. if p = 100 then Zombie else NoProcess)\<rparr>"

text \<open>An agent with two open sessions.\<close>

definition two_sessions :: agent where
  "two_sessions =
     \<lparr>shell_sessions = [(''s1'', \<lparr>fd = 5, pid = 100, rows = 24, cols = 80\<rparr>),
                        (''s2'', \<lparr>fd = 7, pid = 102, rows = 30, cols = 120\<rparr>)],
      shell_connected = True,
      procs = (\<lambda>p. if p = 100 \<or> p = 102 then Running else NoProcess),
      pty_input = (\<lambda>f. []),
      trace = []\<rparr>"

text \<open>Surroundings in which everything works: the fork gives child 101 on descriptor 6.\<close>

definition fine_env :: os_env where
  "fine_env =
     \<lparr>fork_result = Some (101, 6), fcntl_ok = True, emit_ok = (\<lambda>e. True),
      thread_start_ok = True, write_result = (\<lambda>f data. Some (length data)),
      may_signal = (\<lambda>p. True), exits_in_grace = (\<lambda>p. True),
      exits_before_reap = (\<lambda>p. True)\<rparr>"

text \<open>The same, except that the reader thread cannot be started.\<close>

definition no_thread_env :: os_env where
  "no_thread_env = fine_env\<lparr>thread_start_ok := False\<rparr>"

text \<open>The same as \<open>fine_env\<close>, except that the fork fails.\<close>

definition no_fork_env :: os_env where
  "no_fork_env = fine_env\<lparr>fork_result := None\<rparr>"

text \<open>
  Surroundings with a slow child and a short buffer: the child has not exited by the end
  of the grace period nor by the time the agent waits for it, and a write takes two bytes
  at most.
\<close>

definition slow_env :: os_env where
  "slow_env =
     fine_env\<lparr>exits_in_grace := (\<lambda>p. False), exits_before_reap := (\<lambda>p. False),
              write_result := (\<lambda>f data. Some 2)\<rparr>"

text \<open>A command that sleeps past its one-second timeout, and the surroundings of its run.\<close>

definition sleep_command :: "(string \<times> pyval) list" where
  "sleep_command =
     [(''command_uuid'', PyStr ''u-1''), (''command_id'', PyStr ''c-1''),
      (''command_string'', PyStr ''sleep 10''), (''timeout'', PyInt 1)]"

definition sleep_env :: exec_env where
  "sleep_env =
     \<lparr>print_ok = (\<lambda>v. True),
      subprocess_run = (\<lambda>c t. if t = PyInt 1 then TimeoutExpired else Completed 0 [] []),
      time_start = 100, time_end = 101, now_isoformat = ''2024-05-01T10:00:00'',
      py_str = (\<lambda>v. if v = PyInt 1 then ''1'' else ''?''), round3 = (\<lambda>x. x)\<rparr>"




definition agent_config :: config where
  "agent_config =
     \<lparr>center_server_url = ''http://center:5000'', secret_key = ''k'',
      client_id = ''edge-1'', command_poll_interval = 10\<rparr>"

section \<open>Results on command execution and polling\<close>

lemma dict_get_absent: "map_of d k = None \<Longrightarrow> dict_get d k dflt = dflt"
  by (simp add: dict_get_def)

lemma poll_for_commands_returns: "\<exists>v. poll_for_commands cfg h = Inr v"
  by (simp add: poll_for_commands_def split: sum.split py_exn.split)

text \<open>
  C3. When the execution of a command (which starts after the two prints) exceeds its
  timeout, \<open>execute_command\<close> returns a result (it does not raise) with exit code -1,
  empty stdout, the message "Command timed out after <timeout> seconds" on stderr, the
  rounded elapsed time as duration, and the error tag "timeout".
\<close>

theorem execute_command_timeout:
  assumes "print_ok env (dict_get d ''command_id'' (PyStr ''''))"
    and "print_ok env (dict_get d ''command_string'' (PyStr ''''))"
    and "subprocess_run env (dict_get d ''command_string'' (PyStr ''''))
             (dict_get d ''timeout'' (PyInt 60)) = TimeoutExpired"
  shows "\<exists>r. execute_command env (PyDict d) = Inr r
           \<and> exit_code r = - 1
           \<and> stdout r = ''''
           \<and> stderr r = ''Command timed out after ''
                 @ py_str env (dict_get d ''timeout'' (PyInt 60)) @ '' seconds''
           \<and> duration_seconds r = round3 env (time_end env - time_start env)
           \<and> error r = Some ''timeout''"
  using assms by (simp add: execute_command_def Let_def)

theorem execute_command_timeout_witness:
  "print_ok sleep_env (dict_get sleep_command ''command_id'' (PyStr ''''))
   \<and> print_ok sleep_env (dict_get sleep_command ''command_string'' (PyStr ''''))
   \<and> subprocess_run sleep_env (dict_get sleep_command ''command_string'' (PyStr ''''))
     (dict_get sleep_command ''timeout'' (PyInt 60)) = TimeoutExpired
   \<and> (\<exists>r. execute_command sleep_env (PyDict sleep_command) = Inr r
           \<and> exit_code r = - 1
           \<and> stdout r = ''''
           \<and> stderr r = ''Command timed out after 1 seconds''
           \<and> duration_seconds r = 1
           \<and> error r = Some ''timeout'')"
proof -
  have p: "print_ok sleep_env (dict_get sleep_command ''command_id'' (PyStr ''''))"
    "print_ok sleep_env (dict_get sleep_command ''command_string'' (PyStr ''''))"
    by (simp_all add: sleep_env_def)
  have h: "subprocess_run sleep_env (dict_get sleep_command ''command_string'' (PyStr ''''))
             (dict_get sleep_command ''timeout'' (PyInt 60)) = TimeoutExpired"
    by (simp add: sleep_env_def sleep_command_def dict_get_def)
  have t: "dict_get sleep_command ''timeout'' (PyInt 60) = PyInt 1"
    by (simp add: sleep_command_def dict_get_def)
  from execute_command_timeout [OF p h] obtain r where
    r: "execute_command sleep_env (PyDict sleep_command) = Inr r" "exit_code r = - 1"
       "stdout r = ''''"
       "stderr r = ''Command timed out after ''
          @ py_str sleep_env (dict_get sleep_command ''timeout'' (PyInt 60)) @ '' seconds''"
       "duration_seconds r = round3 sleep_env (time_end sleep_env - time_start sleep_env)"
       "error r = Some ''timeout''"
    by blast
  have "stderr r = ''Command timed out after 1 seconds''"
    using r(4) by (simp add: t) (simp add: sleep_env_def)
  moreover have "duration_seconds r = 1"
    using r(5) by (simp add: sleep_env_def)
  ultimately show ?thesis using p h r(1,2,3,6) by blast
qed






text \<open>
  With a negative poll interval the sleep itself raises and ends the worker after its
  first turn, whatever the poll did.
\<close>

lemma negative_interval_ends_worker:
  "command_poll_interval cfg < 0 \<Longrightarrow>
   fst (command_polling_worker cfg (c # cs)) = Some ValueError"
  by (simp add: polling_cycle_def Let_def split: prod.split option.split)

section \<open>Results on base64\<close>

lemma alphabet_index:
  "list_all (\<lambda>n. index_of (b64_alphabet ! n) b64_alphabet = Some n
       \<and> b64_alphabet ! n \<noteq> CHR ''='' \<and> (of_char (b64_alphabet ! n) :: nat) < 128) [0..<64]"
  by code_simp

lemma alphabet_index_n:
  assumes "n < 64"
  shows "index_of (b64_alphabet ! n) b64_alphabet = Some n"
    and "b64_alphabet ! n \<noteq> CHR ''=''"
    and "(of_char (b64_alphabet ! n) :: nat) < 128"
  using alphabet_index assms by (simp_all add: list_all_iff)

lemma and63: "unat ((v :: byte) AND 63) < 64"
proof -
  have "unat (v AND 63) \<le> unat (63 :: byte)"
    by (rule word_and_le1 [THEN word_le_nat_alt [THEN iffD1]])
  then show ?thesis by simp
qed

lemma table_roundtrip: "table_a2b_base64 (table_b2a_base64 v) = Some (v AND 63)"
  by (simp add: table_a2b_base64_def table_b2a_base64_def alphabet_index_n and63)

lemma b2a_not_pad: "table_b2a_base64 v \<noteq> CHR ''=''"
  by (simp add: table_b2a_base64_def alphabet_index_n and63)

lemma b2a_ascii: "(of_char (table_b2a_base64 v) :: nat) < 128"
  by (simp add: table_b2a_base64_def alphabet_index_n and63)

lemma byte_masks: "(3 :: byte) = mask 2" "(15 :: byte) = mask 4" "(63 :: byte) = mask 6"
  by (simp_all add: mask_eq_exp_minus_1)

lemma bit_index_shift:
  "Suc (Suc (n - 2)) = (if 2 \<le> n then n else 2)"
  "2 + (n - 2) = (if 2 \<le> n then n else 2)"
  "4 + (n - 4) = (if 4 \<le> n then n else 4)"
  "6 + (n - 6) = (if 6 \<le> n then n else 6)"
  by auto

lemma first_byte:
  "push_bit 2 (drop_bit 2 a AND 63)
     OR drop_bit 4 ((push_bit 4 (a AND 3) OR drop_bit 4 b) AND 63) = (a :: byte)"
  unfolding byte_masks
  by (rule bit_word_eqI) (auto simp: bit_simps bit_index_shift split: if_splits)

lemma second_byte:
  "push_bit 4 (((push_bit 4 (a AND 3) OR drop_bit 4 b) AND 63) AND 15)
     OR drop_bit 2 ((push_bit 2 (b AND 15) OR drop_bit 6 c) AND 63) = (b :: byte)"
  unfolding byte_masks
  by (rule bit_word_eqI) (auto simp: bit_simps bit_index_shift split: if_splits)

lemma third_byte:
  "push_bit 6 (((push_bit 2 (b AND 15) OR drop_bit 6 c) AND 63) AND 3) OR (c AND 63) = (c :: byte)"
  unfolding byte_masks
  by (rule bit_word_eqI) (auto simp: bit_simps bit_index_shift split: if_splits)

lemma encode_ascii: "list_all (\<lambda>c. (of_char c :: nat) < 128) (b64encode bs)"
  by (induction bs rule: b64encode.induct) (simp_all add: b2a_ascii)

lemma a2b_encode: "a2b_base64 0 l p (b64encode bs) = Some bs"
proof (induction bs arbitrary: l p rule: b64encode.induct)
  case 1
  show ?case by simp
next
  case (2 a)
  show ?case
    using first_byte [of a 0]
    by (simp add: b2a_not_pad table_roundtrip)
next
  case (3 a b)
  show ?case
    using first_byte [of a b] second_byte [of a b 0]
    by (simp add: b2a_not_pad table_roundtrip)
next
  case (4 a b c rest)
  show ?case
    using first_byte [of a b] second_byte [of a b c] third_byte [of b c] "4.IH" [of 0 0]
    by (simp add: b2a_not_pad table_roundtrip)
qed

text \<open>Decoding an encoding gives the bytes back.\<close>

lemma b64_roundtrip: "b64decode (b64encode bs) = Some bs"
  by (simp add: b64decode_def encode_ascii a2b_encode)

section \<open>Results on shell sessions\<close>

lemma sessions_log [simp]: "shell_sessions (log a w) = shell_sessions w"
  and procs_log [simp]: "procs (log a w) = procs w"
  and trace_log [simp]: "trace (log a w) = trace w @ [a]"
  and connected_log [simp]: "shell_connected (log a w) = shell_connected w"
  and pty_input_log [simp]: "pty_input (log a w) = pty_input w"
  by (simp_all add: log_def)

lemma sessions_set_pty_size [simp]: "shell_sessions (set_pty_size w f r c) = shell_sessions w"
  and procs_set_pty_size [simp]: "procs (set_pty_size w f r c) = procs w"
  by (simp_all add: set_pty_size_def)

lemma sessions_child_may_exit [simp]: "shell_sessions (child_may_exit b p w) = shell_sessions w"
  and trace_child_may_exit [simp]: "trace (child_may_exit b p w) = trace w"
  by (simp_all add: child_may_exit_def)

lemma sessions_os_kill [simp]: "shell_sessions (snd (os_kill env w p sg)) = shell_sessions w"
  and trace_os_kill [simp]: "trace (snd (os_kill env w p sg)) = trace w @ [Kill p sg]"
  and procs_os_kill [simp]: "procs (snd (os_kill env w p sg)) = procs w"
  by (simp_all add: os_kill_def)

lemma sessions_os_waitpid [simp]: "shell_sessions (snd (os_waitpid_nohang w p)) = shell_sessions w"
  and trace_os_waitpid [simp]: "trace (snd (os_waitpid_nohang w p)) = trace w @ [WaitpidNohang p]"
  by (simp_all add: os_waitpid_nohang_def split: pstate.split)

lemma sessions_os_write [simp]: "shell_sessions (snd (os_write env w f data)) = shell_sessions w"
  and trace_os_write [simp]: "trace (snd (os_write env w f data)) = trace w @ [WriteFd f data]"
  by (simp_all add: os_write_def split: option.split)

lemma trace_close_present:
  assumes "map_of (shell_sessions w) sid = Some s"
  shows "trace (close_shell_session env w sid)
         = trace w @ (if procs w (pid s) = NoProcess
                         \<or> procs w (pid s) = OtherProcess \<and> \<not> may_signal env (pid s)
                      then [CloseFd (fd s), Kill (pid s) SIGTERM]
                      else [CloseFd (fd s), Kill (pid s) SIGTERM, Sleep,
                            Kill (pid s) SIGKILL, WaitpidNohang (pid s)])"
  using assms
  by (simp add: close_shell_session_def Let_def os_kill_def)

lemma sessions_close:
  "shell_sessions (close_shell_session env w sid) = AList.delete sid (shell_sessions w)"
proof (cases "map_of (shell_sessions w) sid")
  case None
  then have "sid \<notin> fst ` set (shell_sessions w)"
    by (simp add: map_of_eq_None_iff)
  then show ?thesis using None
    by (simp add: close_shell_session_def delete_id)
next
  case (Some s)
  then show ?thesis
    by (simp add: close_shell_session_def Let_def os_kill_def)
qed

lemma sessions_fold_close:
  "shell_sessions (fold (\<lambda>sid w'. close_shell_session env w' sid) ks w)
     = filter (\<lambda>kv. fst kv \<notin> set ks) (shell_sessions w)"
proof (induction ks arbitrary: w)
  case Nil
  show ?case by simp
next
  case (Cons k ks)
  show ?case
    by (auto simp: Cons.IH sessions_close AList.delete_eq case_prod_beta intro!: filter_cong)
qed

lemma close_absent: "map_of (shell_sessions w) sid = None \<Longrightarrow> close_shell_session env w sid = w"
  by (simp add: close_shell_session_def)

lemma connected_close [simp]:
  "shell_connected (close_shell_session env w sid) = shell_connected w"
  by (simp add: close_shell_session_def Let_def os_kill_def os_waitpid_nohang_def
        child_may_exit_def log_def split: option.split pstate.split)

lemma connected_fold_close:
  "shell_connected (fold (\<lambda>sid w'. close_shell_session env w' sid) ks w) = shell_connected w"
  by (induction ks arbitrary: w) simp_all

text \<open>
  Closing the sessions of a registry one after the other, in its order: each of them gets
  its descriptor closed and its child sent SIGTERM, and either the rest of the teardown or
  (when the SIGTERM raised) nothing more.
\<close>

lemma trace_fold_close:
  assumes "distinct (map fst al)" and "shell_sessions w = al"
  shows "\<exists>parts.
           trace (fold (\<lambda>sid w'. close_shell_session env w' sid) (map fst al) w)
             = trace w @ concat parts
           \<and> list_all2
               (\<lambda>kv part.
                  part = [CloseFd (fd (snd kv)), Kill (pid (snd kv)) SIGTERM]
                  \<or> part = [CloseFd (fd (snd kv)), Kill (pid (snd kv)) SIGTERM, Sleep,
                            Kill (pid (snd kv)) SIGKILL, WaitpidNohang (pid (snd kv))])
               al parts"
  using assms
proof (induction al arbitrary: w)
  case Nil
  have "list_all2
          (\<lambda>kv part.
             part = [CloseFd (fd (snd kv)), Kill (pid (snd kv)) SIGTERM]
             \<or> part = [CloseFd (fd (snd kv)), Kill (pid (snd kv)) SIGTERM, Sleep,
                       Kill (pid (snd kv)) SIGKILL, WaitpidNohang (pid (snd kv))])
          ([] :: (string \<times> shell_session) list) []"
    by simp
  then show ?case by (intro exI [of _ "[]"]) simp
next
  case (Cons kv rest)
  obtain k s where kv: "kv = (k, s)"
    by (cases kv)
  let ?w1 = "close_shell_session env w k"
  have present: "map_of (shell_sessions w) k = Some s"
    using Cons.prems kv by simp
  have "k \<notin> fst ` set rest"
    using Cons.prems kv by auto
  then have rest: "shell_sessions ?w1 = rest"
    using Cons.prems kv by (simp add: sessions_close delete_id)
  obtain part where part: "trace ?w1 = trace w @ part"
    "part = [CloseFd (fd s), Kill (pid s) SIGTERM]
     \<or> part = [CloseFd (fd s), Kill (pid s) SIGTERM, Sleep, Kill (pid s) SIGKILL,
               WaitpidNohang (pid s)]"
    using trace_close_present [OF present, of env] by (cases "procs w (pid s)") auto
  from Cons.prems have "distinct (map fst rest)"
    by simp
  from Cons.IH [OF this rest] obtain parts where parts:
    "trace (fold (\<lambda>sid w'. close_shell_session env w' sid) (map fst rest) ?w1)
       = trace ?w1 @ concat parts"
    "list_all2
       (\<lambda>kv part.
          part = [CloseFd (fd (snd kv)), Kill (pid (snd kv)) SIGTERM]
          \<or> part = [CloseFd (fd (snd kv)), Kill (pid (snd kv)) SIGTERM, Sleep,
                    Kill (pid (snd kv)) SIGKILL, WaitpidNohang (pid (snd kv))])
       rest parts"
    by blast
  show ?case
    by (intro exI [of _ "part # parts"]) (use kv part parts in simp)
qed


text \<open>
  C5. For a session id that is not in the registry, input, resize and close each return
  the agent as it was: nothing is written, resized, closed or signalled, no exception
  arises, and the registry is unchanged.
\<close>

theorem unknown_session_noop:
  assumes "map_of (shell_sessions w) sid = None"
  shows "handle_shell_input env w sid input_data = w
         \<and> resize_shell w sid r c = w
         \<and> close_shell_session env w sid = w"
  using assms
  by (simp add: handle_shell_input_def resize_shell_def close_shell_session_def)

theorem unknown_session_noop_witness:
  "map_of (shell_sessions one_session) ''s9'' = None
   \<and> handle_shell_input fine_env one_session ''s9'' ''bHMK'' = one_session
   \<and> resize_shell one_session ''s9'' 40 100 = one_session
   \<and> close_shell_session fine_env one_session ''s9'' = one_session"
proof -
  have h: "map_of (shell_sessions one_session) ''s9'' = None"
    by (simp add: one_session_def)
  from unknown_session_noop [OF h] h show ?thesis by blast
qed

text \<open>
  C6. Closing is idempotent: after a close of a session id, whatever it found, the id is
  not in the registry, and a second close of the same id changes nothing; in particular
  it adds no teardown action to the trace.
\<close>

theorem close_idempotent:
  "map_of (shell_sessions (close_shell_session env1 w sid)) sid = None
   \<and> close_shell_session env2 (close_shell_session env1 w sid) sid
       = close_shell_session env1 w sid
   \<and> trace (close_shell_session env2 (close_shell_session env1 w sid) sid)
       = trace (close_shell_session env1 w sid)"
proof -
  have "map_of (shell_sessions (close_shell_session env1 w sid)) sid = None"
    by (simp add: sessions_close delete_conv)
  then show ?thesis
    by (simp add: close_absent)
qed

theorem close_idempotent_witness:
  "trace (close_shell_session fine_env one_session ''s1'')
     = [CloseFd 5, Kill 100 SIGTERM, Sleep, Kill 100 SIGKILL, WaitpidNohang 100]
   \<and> shell_sessions (close_shell_session fine_env one_session ''s1'') = []
   \<and> close_shell_session no_fork_env (close_shell_session fine_env one_session ''s1'') ''s1''
       = close_shell_session fine_env one_session ''s1''"
proof -
  have h: "map_of (shell_sessions one_session) ''s1''
             = Some \<lparr>fd = 5, pid = 100, rows = 24, cols = 80\<rparr>"
    by (simp add: one_session_def)
  have "trace (close_shell_session fine_env one_session ''s1'')
     = [CloseFd 5, Kill 100 SIGTERM, Sleep, Kill 100 SIGKILL, WaitpidNohang 100]"
    using trace_close_present [OF h, of fine_env] by (simp add: one_session_def)
  moreover have "shell_sessions (close_shell_session fine_env one_session ''s1'') = []"
    by (simp add: sessions_close one_session_def AList.delete_eq)
  ultimately show ?thesis
    using close_idempotent [of fine_env one_session "''s1''" no_fork_env] by simp
qed

text \<open>
  C7. Whatever the registry holds, after the disconnect handler has run it holds no
  session, and the agent is marked as not connected. The handler tears every registered
  session down, in the order of the registry: what it adds to the trace is, session after
  session, the close of the session's descriptor and the SIGTERM to its child, followed
  (unless that SIGTERM raised) by the sleep, the SIGKILL and the wait for the child.
\<close>

theorem disconnect_closes_all:
  "shell_sessions (disconnect env w) = []
   \<and> \<not> shell_connected (disconnect env w)
   \<and> (distinct (map fst (shell_sessions w)) \<longrightarrow>
        (\<exists>parts.
           trace (disconnect env w) = trace w @ concat parts
           \<and> list_all2
               (\<lambda>kv part.
                  part = [CloseFd (fd (snd kv)), Kill (pid (snd kv)) SIGTERM]
                  \<or> part = [CloseFd (fd (snd kv)), Kill (pid (snd kv)) SIGTERM, Sleep,
                            Kill (pid (snd kv)) SIGKILL, WaitpidNohang (pid (snd kv))])
               (shell_sessions w) parts))"
proof -
  have "shell_sessions (disconnect env w) = []"
    by (simp add: disconnect_def sessions_fold_close filter_empty_conv)
  moreover have "\<not> shell_connected (disconnect env w)"
    by (simp add: disconnect_def connected_fold_close)
  moreover have "\<exists>parts.
           trace (disconnect env w) = trace w @ concat parts
           \<and> list_all2
               (\<lambda>kv part.
                  part = [CloseFd (fd (snd kv)), Kill (pid (snd kv)) SIGTERM]
                  \<or> part = [CloseFd (fd (snd kv)), Kill (pid (snd kv)) SIGTERM, Sleep,
                            Kill (pid (snd kv)) SIGKILL, WaitpidNohang (pid (snd kv))])
               (shell_sessions w) parts"
    if "distinct (map fst (shell_sessions w))"
    using trace_fold_close [OF that, of "w\<lparr>shell_connected := False\<rparr>" env]
    by (simp add: disconnect_def)
  ultimately show ?thesis by blast
qed

theorem disconnect_closes_all_witness:
  "shell_sessions two_sessions \<noteq> []
   \<and> distinct (map fst (shell_sessions two_sessions))
   \<and> shell_sessions (disconnect fine_env two_sessions) = []
   \<and> trace (disconnect fine_env two_sessions)
       = [CloseFd 5, Kill 100 SIGTERM, Sleep, Kill 100 SIGKILL, WaitpidNohang 100,
          CloseFd 7, Kill 102 SIGTERM, Sleep, Kill 102 SIGKILL, WaitpidNohang 102]"
proof -
  have "trace (disconnect fine_env two_sessions)
       = [CloseFd 5, Kill 100 SIGTERM, Sleep, Kill 100 SIGKILL, WaitpidNohang 100,
          CloseFd 7, Kill 102 SIGTERM, Sleep, Kill 102 SIGKILL, WaitpidNohang 102]"
    by (simp add: disconnect_def close_shell_session_def two_sessions_def fine_env_def Let_def
          os_kill_def os_waitpid_nohang_def child_may_exit_def log_def AList.delete_eq)
  moreover have "shell_sessions two_sessions \<noteq> []"
    and "distinct (map fst (shell_sessions two_sessions))"
    by (simp_all add: two_sessions_def)
  ultimately show ?thesis
    using disconnect_closes_all [of fine_env two_sessions] by simp
qed

text \<open>
  What the descriptor of a registered session takes from one input: the first bytes of
  the decoded payload, as many as the write accepts; nothing when the payload does not
  decode or the write raises.
\<close>

lemma pty_input_handle_input:
  assumes "map_of (shell_sessions w) sid = Some s"
  shows "pty_input (handle_shell_input env w sid input_data) (fd s)
         = pty_input w (fd s)
           @ (case b64decode input_data of
                None \<Rightarrow> []
              | Some data \<Rightarrow>
                  (case write_result env (fd s) data of None \<Rightarrow> [] | Some n \<Rightarrow> take n data))"
  using assms
  by (simp add: handle_shell_input_def os_write_def log_def split: option.split)

lemma trace_handle_input:
  assumes "map_of (shell_sessions w) sid = Some s"
  shows "trace (handle_shell_input env w sid input_data)
         = trace w @ (case b64decode input_data of
                        None \<Rightarrow> [] | Some data \<Rightarrow> [WriteFd (fd s) data])"
  using assms
  by (simp add: handle_shell_input_def split: option.split)

lemma sessions_handle_input [simp]:
  "shell_sessions (handle_shell_input env w sid i) = shell_sessions w"
  by (simp add: handle_shell_input_def split: option.split)

text \<open>
  When every write takes all of its data, the descriptor of a registered session takes
  exactly the bytes that were encoded, input after input.
\<close>

lemma pty_input_complete_writes:
  assumes "map_of (shell_sessions w) sid = Some s"
    and "\<And>data. write_result env (fd s) data = Some (length data)"
  shows "pty_input (shell_inputs env w sid (map b64encode bss)) (fd s)
         = pty_input w (fd s) @ concat bss"
  using assms(1) unfolding shell_inputs_def
proof (induction bss arbitrary: w)
  case Nil
  show ?case by simp
next
  case (Cons bs bss)
  let ?w1 = "handle_shell_input env w sid (b64encode bs)"
  have "map_of (shell_sessions ?w1) sid = Some s"
    using Cons.prems by simp
  from Cons.IH [OF this] show ?case
    using pty_input_handle_input [OF Cons.prems, of env "b64encode bs"]
    by (simp add: b64_roundtrip assms(2))
qed

text \<open>
  C9. The descriptor is in non-blocking mode and the handler does not look at the number
  of bytes \<open>os.write\<close> took: when the write is short, the descriptor takes only the
  first bytes of the decoded payload, and the rest is lost. Here the payload decodes to
  the six bytes of "hello" and a newline, the write takes two, and the descriptor has
  taken "he".
\<close>

theorem shell_input_short_write:
  "map_of (shell_sessions one_session) ''s1''
     = Some \<lparr>fd = 5, pid = 100, rows = 24, cols = 80\<rparr>
   \<and> b64decode ''aGVsbG8K'' = Some [104, 101, 108, 108, 111, 10]
   \<and> write_result slow_env 5 [104, 101, 108, 108, 111, 10] = Some 2
   \<and> trace (handle_shell_input slow_env one_session ''s1'' ''aGVsbG8K'')
       = [WriteFd 5 [104, 101, 108, 108, 111, 10]]
   \<and> pty_input (handle_shell_input slow_env one_session ''s1'' ''aGVsbG8K'') 5 = [104, 101]"
proof -
  have h: "map_of (shell_sessions one_session) ''s1''
     = Some \<lparr>fd = 5, pid = 100, rows = 24, cols = 80\<rparr>"
    by (simp add: one_session_def)
  have d: "b64decode ''aGVsbG8K'' = Some [104, 101, 108, 108, 111, 10]"
    by code_simp
  have r: "write_result slow_env 5 [104, 101, 108, 108, 111, 10] = Some 2"
    by (simp add: slow_env_def fine_env_def)
  have "trace (handle_shell_input slow_env one_session ''s1'' ''aGVsbG8K'')
       = [WriteFd 5 [104, 101, 108, 108, 111, 10]]"
    using trace_handle_input [OF h, of slow_env "''aGVsbG8K''"]
    unfolding d by (simp add: one_session_def)
  moreover have "pty_input (handle_shell_input slow_env one_session ''s1'' ''aGVsbG8K'') 5
                   = [104, 101]"
    using pty_input_handle_input [OF h, of slow_env "''aGVsbG8K''"]
    unfolding d by (simp add: r) (simp add: one_session_def)
  ultimately show ?thesis using h d r by blast
qed

text \<open>
  A child that has exited by the time of the wait is reaped by the teardown.
\<close>

lemma procs_close_present:
  assumes "map_of (shell_sessions w) sid = Some s"
    and "procs w (pid s) = Zombie
         \<or> procs w (pid s) = Running \<and> (exits_in_grace env (pid s) \<or> exits_before_reap env (pid s))"
  shows "procs (close_shell_session env w sid) (pid s) = NoProcess"
  using assms
  by (auto simp: close_shell_session_def Let_def os_kill_def os_waitpid_nohang_def
        child_may_exit_def log_def split: pstate.split)

text \<open>
  C8. The teardown closes the descriptor, sends SIGTERM, sleeps, sends SIGKILL and waits
  for the child, in this order, but it waits for the child
  once, without blocking, right after the SIGKILL: a child that is still running at that
  moment is not reaped, and since the session has left the registry nothing waits for it
  later, so it stays a zombie once it exits. (The SIGKILL is sent without asking whether
  the child is alive.)
\<close>

theorem teardown_leaves_child_unreaped:
  "map_of (shell_sessions one_session) ''s1''
     = Some \<lparr>fd = 5, pid = 100, rows = 24, cols = 80\<rparr>
   \<and> procs one_session 100 = Running
   \<and> trace (close_shell_session slow_env one_session ''s1'')
       = [CloseFd 5, Kill 100 SIGTERM, Sleep, Kill 100 SIGKILL, WaitpidNohang 100]
   \<and> procs (close_shell_session slow_env one_session ''s1'') 100 = Running
   \<and> shell_sessions (close_shell_session slow_env one_session ''s1'') = []
   \<and> procs (child_may_exit True 100 (close_shell_session slow_env one_session ''s1'')) 100
       = Zombie"
  by (simp add: close_shell_session_def one_session_def slow_env_def fine_env_def Let_def
        os_kill_def os_waitpid_nohang_def child_may_exit_def log_def)

text \<open>
  The SIGKILL goes to a child that has already exited as well, and to whatever process
  has the child's id when the child was reaped before the teardown and the id given out
  again.
\<close>

lemma teardown_kills_without_asking:
  "trace (close_shell_session fine_env exited_session ''s1'')
     = [CloseFd 5, Kill 100 SIGTERM, Sleep, Kill 100 SIGKILL, WaitpidNohang 100]
   \<and> trace (close_shell_session fine_env
              (one_session\<lparr>procs := (\<lambda>p. if p = 100 then OtherProcess else NoProcess)\<rparr>) ''s1'')
     = [CloseFd 5, Kill 100 SIGTERM, Sleep, Kill 100 SIGKILL, WaitpidNohang 100]"
  by (simp add: close_shell_session_def exited_session_def one_session_def fine_env_def Let_def
        os_kill_def os_waitpid_nohang_def child_may_exit_def log_def)

lemma sessions_open_attempt:
  "shell_sessions (snd (open_attempt cfg env w sid r c))
     = (case fork_result env of
          None \<Rightarrow> shell_sessions w
        | Some (p, f) \<Rightarrow>
            if fcntl_ok env
            then AList.update sid \<lparr>fd = f, pid = p, rows = r, cols = c\<rparr> (shell_sessions w)
            else shell_sessions w)"
  by (simp add: open_attempt_def Let_def split: option.split prod.split)

lemma sessions_open:
  "shell_sessions (snd (open_shell_session cfg env w sid r c))
     = shell_sessions (snd (open_attempt cfg env w sid r c))"
  by (cases "open_attempt cfg env w sid r c")
     (simp add: open_shell_session_def split: option.split)

lemma procs_open_attempt:
  "fork_result env = Some (p, f) \<Longrightarrow>
   procs (snd (open_attempt cfg env w sid r c)) = (procs w)(p := Running)"
  by (simp add: open_attempt_def Let_def log_def)

lemma procs_open:
  "procs (snd (open_shell_session cfg env w sid r c))
     = procs (snd (open_attempt cfg env w sid r c))"
  by (cases "open_attempt cfg env w sid r c")
     (simp add: open_shell_session_def split: option.split)

text \<open>
  C1 (as amended). Opening does not look the session id up first. When the fork and the
  non-blocking setup succeed, the registry maps the session id to the pair just created,
  in place of the entry it may have held; the keys stay as they were when the id was
  present and gain the id at the end otherwise; every other id keeps its entry; the new
  child is running. When the fork or the setup fails the registry is unchanged. Keys
  that were distinct stay distinct.
\<close>

theorem open_replaces_entry:
  "(fork_result env = Some (p, f) \<and> fcntl_ok env \<longrightarrow>
      map_of (shell_sessions (snd (open_shell_session cfg env w sid r c))) sid
        = Some \<lparr>fd = f, pid = p, rows = r, cols = c\<rparr>
      \<and> map fst (shell_sessions (snd (open_shell_session cfg env w sid r c)))
          = (if sid \<in> set (map fst (shell_sessions w)) then map fst (shell_sessions w)
             else map fst (shell_sessions w) @ [sid])
      \<and> (\<forall>sid'. sid' \<noteq> sid \<longrightarrow>
            map_of (shell_sessions (snd (open_shell_session cfg env w sid r c))) sid'
              = map_of (shell_sessions w) sid')
      \<and> procs (snd (open_shell_session cfg env w sid r c)) p = Running)
   \<and> (fork_result env = None \<or> \<not> fcntl_ok env \<longrightarrow>
        shell_sessions (snd (open_shell_session cfg env w sid r c)) = shell_sessions w)
   \<and> (distinct (map fst (shell_sessions w)) \<longrightarrow>
        distinct (map fst (shell_sessions (snd (open_shell_session cfg env w sid r c)))))"
  by (auto simp: sessions_open sessions_open_attempt procs_open procs_open_attempt
        update_conv' update_keys distinct_update split: option.split)

theorem open_replaces_entry_witness:
  "fork_result fine_env = Some (101, 6) \<and> fcntl_ok fine_env
   \<and> map_of (shell_sessions (snd (open_shell_session agent_config fine_env two_sessions ''s1'' 40 100))) ''s1''
       = Some \<lparr>fd = 6, pid = 101, rows = 40, cols = 100\<rparr>
   \<and> map fst (shell_sessions (snd (open_shell_session agent_config fine_env two_sessions ''s1'' 40 100)))
       = [''s1'', ''s2'']
   \<and> map_of (shell_sessions (snd (open_shell_session agent_config fine_env two_sessions ''s1'' 40 100))) ''s2''
       = Some \<lparr>fd = 7, pid = 102, rows = 30, cols = 120\<rparr>"
proof -
  have h: "fork_result fine_env = Some (101, 6) \<and> fcntl_ok fine_env"
    by (simp add: fine_env_def)
  have k: "map fst (shell_sessions two_sessions) = [''s1'', ''s2'']"
    and v: "map_of (shell_sessions two_sessions) ''s2''
              = Some \<lparr>fd = 7, pid = 102, rows = 30, cols = 120\<rparr>"
    by (simp_all add: two_sessions_def)
  from open_replaces_entry [of fine_env 101 6 agent_config two_sessions "''s1''" 40 100] h k v
  show ?thesis by simp
qed

text \<open>
  C1 as stated fails: opening a session id that is registered reports nothing, forks a
  second child and replaces the entry, while the first child keeps running.
\<close>

theorem open_existing_session_replaces:
  "map_of (shell_sessions one_session) ''s1''
     = Some \<lparr>fd = 5, pid = 100, rows = 24, cols = 80\<rparr>
   \<and> fst (open_shell_session agent_config fine_env one_session ''s1'' 24 80) = None
   \<and> shell_sessions (snd (open_shell_session agent_config fine_env one_session ''s1'' 24 80))
       = [(''s1'', \<lparr>fd = 6, pid = 101, rows = 24, cols = 80\<rparr>)]
   \<and> trace (snd (open_shell_session agent_config fine_env one_session ''s1'' 24 80))
       = [Fork, SetNonblocking 6, SetWinsize 6 24 80, Emit (ShellReady ''s1'' ''edge-1''),
          StartReader ''s1'']
   \<and> procs (snd (open_shell_session agent_config fine_env one_session ''s1'' 24 80)) 100 = Running
   \<and> procs (snd (open_shell_session agent_config fine_env one_session ''s1'' 24 80)) 101 = Running"
  by (simp add: open_shell_session_def open_attempt_def one_session_def fine_env_def
        agent_config_def Let_def set_pty_size_def log_def)

text \<open>
  C2. When the fork, the setup and the \<open>shell_ready\<close> emit succeed but the reader thread
  cannot be started, the handler of the same \<^verbatim>\<open>try\<close> block emits
  \<open>shell_client_exit\<close> with code -1 as well: both events are sent for one open, and the
  session stays in the registry.
\<close>

theorem open_thread_failure_emits_both:
  "fst (open_shell_session agent_config no_thread_env one_session ''s2'' 24 80) = None
   \<and> trace (snd (open_shell_session agent_config no_thread_env one_session ''s2'' 24 80))
       = [Fork, SetNonblocking 6, SetWinsize 6 24 80, Emit (ShellReady ''s2'' ''edge-1''),
          Emit (ShellClientExit ''s2'' (- 1))]
   \<and> map_of (shell_sessions (snd (open_shell_session agent_config no_thread_env one_session ''s2'' 24 80))) ''s2''
       = Some \<lparr>fd = 6, pid = 101, rows = 24, cols = 80\<rparr>"
  by (simp add: open_shell_session_def open_attempt_def one_session_def fine_env_def
        no_thread_env_def agent_config_def Let_def set_pty_size_def log_def)

text \<open>
  The two paths the handler was written for: everything works and exactly
  \<open>shell_ready\<close> is emitted; the fork or the setup fails and exactly
  \<open>shell_client_exit\<close> with code -1 is emitted.
\<close>

lemma open_all_fine:
  assumes "fork_result env = Some (p, f)" "fcntl_ok env"
    "emit_ok env (ShellReady sid (client_id cfg))" "thread_start_ok env"
  shows "fst (open_shell_session cfg env w sid r c) = None
         \<and> filter (\<lambda>a. case a of Emit e \<Rightarrow> True | _ \<Rightarrow> False)
             (trace (snd (open_shell_session cfg env w sid r c)))
           = filter (\<lambda>a. case a of Emit e \<Rightarrow> True | _ \<Rightarrow> False) (trace w)
             @ [Emit (ShellReady sid (client_id cfg))]"
  using assms
  by (simp add: open_shell_session_def open_attempt_def Let_def set_pty_size_def log_def)

lemma open_spawn_fails:
  assumes "fork_result env = None \<or> \<not> fcntl_ok env"
    "emit_ok env (ShellClientExit sid (- 1))"
  shows "fst (open_shell_session cfg env w sid r c) = None
         \<and> filter (\<lambda>a. case a of Emit e \<Rightarrow> True | _ \<Rightarrow> False)
             (trace (snd (open_shell_session cfg env w sid r c)))
           = filter (\<lambda>a. case a of Emit e \<Rightarrow> True | _ \<Rightarrow> False) (trace w)
             @ [Emit (ShellClientExit sid (- 1))]"
  using assms
  by (auto simp: open_shell_session_def open_attempt_def Let_def set_pty_size_def log_def
        split: option.split prod.split)

end
